theory Spec2Isabelle
  imports Main
begin

section \<open>Data model\<close>

subsection \<open>utils/errorHandler.js\<close>

text \<open>
  \<^verbatim>\<open>class ErrorHandler extends Error\<close>: a message, a status code, a status word
  that is \<^verbatim>\<open>'failed'\<close> when the decimal form of the code starts with the digit 4
  and \<^verbatim>\<open>'error'\<close> otherwise, and the operational flag.
\<close>

record app_error =
  message :: string
  statusCode :: nat
  status :: string
  operationalError :: bool

fun leading_digit :: "nat \<Rightarrow> nat" where
  "leading_digit n = (if n < 10 then n else leading_digit (n div 10))"

definition ErrorHandler :: "string \<Rightarrow> nat \<Rightarrow> app_error" where
  "ErrorHandler msg code =
     \<lparr> message = msg, statusCode = code,
       status = (if leading_digit code = 4 then ''failed'' else ''error''),
       operationalError = True \<rparr>"

text \<open>
  What a handler hands to \<^verbatim>\<open>next\<close>: an \<^verbatim>\<open>ErrorHandler\<close> built by the handler
  itself, or an exception of a library that the \<^verbatim>\<open>catchAsync\<close> wrapper forwards. A
  promise that rejects without being awaited reaches nobody: no response is sent.
\<close>

datatype jwt_error = JsonWebTokenError | TokenExpiredError

datatype failure =
    AppError app_error
  | ValidationError
  | DuplicateKeyError
  | TokenError jwt_error
  | BcryptIllegalArguments
  | UnhandledRejection

subsection \<open>models/userModel.js: the schema\<close>

text \<open>
  Times are milliseconds since the epoch (\<^verbatim>\<open>Date.now()\<close>), as \<open>int\<close>. A field the
  schema does not require is optional. Identifiers are taken to be well-formed ObjectId
  strings.
\<close>

record user =
  uid :: string
  name :: string
  email :: string
  photo :: string
  role :: string
  password :: "string option"
  passwordConfirmation :: "string option"
  passwordChangedAt :: "int option"
  passwordResetToken :: "string option"
  passwordResetExpiresIn :: "int option"
  isActive :: bool
  confirmed :: bool

subsection \<open>Libraries and collaborators\<close>

text \<open>
  The packages the code calls are parameters of the model: bcryptjs (the hash takes the
  password, the cost and the salt it draws at random), the SHA-256 hex digest of
  \<^verbatim>\<open>crypto\<close>, jsonwebtoken (signing reads the clock; verifying returns the payload or
  throws), \<^verbatim>\<open>validator.isEmail\<close>, the lower-casing of the schema's \<^verbatim>\<open>lowercase\<close>
  option, and the team-membership test of \<^verbatim>\<open>utils/checkIfMemberOfSameTeam\<close>
  (test id, user id).
\<close>

record jwt_payload =
  pid :: string
  iat :: int

record collaborators =
  bcrypt_hash :: "string \<Rightarrow> nat \<Rightarrow> string \<Rightarrow> string"
  bcrypt_compare :: "string \<Rightarrow> string \<Rightarrow> bool"
  sha256_hex :: "string \<Rightarrow> string"
  jwt_sign :: "string \<Rightarrow> string \<Rightarrow> string \<Rightarrow> int \<Rightarrow> string"
  jwt_verify :: "string \<Rightarrow> string \<Rightarrow> int \<Rightarrow> jwt_error + jwt_payload"
  isEmail :: "string \<Rightarrow> bool"
  toLowerCase :: "string \<Rightarrow> string"
  isMemberOfSameTeam :: "string \<Rightarrow> string \<Rightarrow> bool"

text \<open>\<^verbatim>\<open>process.env\<close>.\<close>

record config =
  NODE_ENV :: string
  JWT_SECRET_KEY :: string
  JWT_EXPIRATION_TIME :: string
  JWT_COOKIE_EXPIRATION_TIME :: int

text \<open>The parts of the HTTP request the handlers read besides body and parameters.\<close>

record request =
  authorization :: "string option"
  cookies_jwt :: "string option"
  secure :: bool
  protocol :: string
  host :: string

subsection \<open>Completed records, mails, the stores\<close>

text \<open>
  Modelled from the spec: the Completed schema (\<^verbatim>\<open>models/completedModel\<close> is not among
  the sources). A record references a User and a Test and carries a timestamp, like the
  Applied schema, whose two references are required. The field \<open>c_user\<close> holds what
  the controller reads as \<^verbatim>\<open>currentCompleted.user.id.toString()\<close>: the id of the
  owning user.
\<close>

record completed =
  cid :: string
  c_test :: string
  c_user :: string
  completedAt :: int

record completed_body =
  b_test :: "string option"
  b_user :: "string option"

datatype mail_kind = ConfirmationMail | ResetPasswordMail

record mail =
  mail_kind :: mail_kind
  mail_to :: string
  mail_url :: string

record world =
  users :: "user list"
  tests :: "string list"
  completeds :: "completed list"
  outbox :: "mail list"

subsection \<open>Responses\<close>

record cookie =
  cookie_name :: string
  cookie_value :: string
  cookie_expires :: int
  httpOnly :: bool
  cookie_secure :: bool

datatype json =
    SessionJson string user
  | DataMessage string
  | TopMessage string
  | CompletedDocument completed
  | NullData

record response =
  res_status :: nat
  res_cookie :: "cookie option"
  res_json :: json

section \<open>models/userModel.js: hooks and methods\<close>

text \<open>
  The two \<^verbatim>\<open>pre('save')\<close> hooks. \<open>modified\<close> is \<^verbatim>\<open>this.isModified('password')\<close>,
  \<open>isNew\<close> is \<^verbatim>\<open>this.isNew\<close>.
\<close>

definition hashPasswordHook ::
  "collaborators \<Rightarrow> bool \<Rightarrow> string \<Rightarrow> user \<Rightarrow> failure + user" where
  "hashPasswordHook L modified salt u =
     (if \<not> modified then Inr u
      else case password u of
             None \<Rightarrow> Inl BcryptIllegalArguments
           | Some p \<Rightarrow>
               Inr (u\<lparr> password := Some (bcrypt_hash L p 12 salt),
                       passwordConfirmation := None \<rparr>))"

definition passwordChangedAtHook :: "bool \<Rightarrow> bool \<Rightarrow> int \<Rightarrow> user \<Rightarrow> user" where
  "passwordChangedAtHook modified isNew now u =
     (if \<not> modified \<or> isNew then u
      else u\<lparr> passwordChangedAt := Some (now - 1000) \<rparr>)"

definition isPasswordCorrect :: "collaborators \<Rightarrow> string \<Rightarrow> string \<Rightarrow> bool" where
  "isPasswordCorrect L passwordToCheck correctPassword =
     bcrypt_compare L passwordToCheck correctPassword"

text \<open>
  \<^verbatim>\<open>parseInt(x / 1000, 10)\<close> on a whole number of milliseconds: the quotient with
  its fraction dropped, towards zero.
\<close>

definition parseInt_div1000 :: "int \<Rightarrow> int" where
  "parseInt_div1000 x = (if 0 \<le> x then x div 1000 else - ((- x) div 1000))"

definition isPasswordChangedAfterTokenIsIssued :: "user \<Rightarrow> int \<Rightarrow> bool" where
  "isPasswordChangedAfterTokenIsIssued u jwtTimeStamp =
     (case passwordChangedAt u of
        Some t \<Rightarrow> parseInt_div1000 t > jwtTimeStamp
      | None \<Rightarrow> False)"

text \<open>
  \<open>resetToken\<close> is the value of \<^verbatim>\<open>crypto.randomBytes(32).toString('hex')\<close>, \<open>now\<close>
  the value of \<^verbatim>\<open>Date.now()\<close>. The method changes the document and returns the token.
\<close>

definition createPasswordResetToken ::
  "collaborators \<Rightarrow> string \<Rightarrow> int \<Rightarrow> user \<Rightarrow> string \<times> user" where
  "createPasswordResetToken L resetToken now u =
     (resetToken,
      u\<lparr> passwordResetToken := Some (sha256_hex L resetToken),
         passwordResetExpiresIn := Some (now + 10 * 60 * 1000) \<rparr>)"

text \<open>The \<^verbatim>\<open>pre(/^find/)\<close> hook adds \<^verbatim>\<open>{ isActive: { $ne: false } }\<close> to every query.\<close>

definition activeFilter :: "user \<Rightarrow> bool" where
  "activeFilter u = (isActive u \<noteq> False)"

text \<open>
  A query returns the first document that matches its filter and the hook's. The
  password has \<^verbatim>\<open>select: false\<close>: the document comes without it unless the query
  asks with \<^verbatim>\<open>select('+password')\<close>.
\<close>

definition findOne :: "(user \<Rightarrow> bool) \<Rightarrow> user list \<Rightarrow> user option" where
  "findOne flt db =
     map_option (\<lambda>u. u\<lparr> password := None \<rparr>) (find (\<lambda>u. flt u \<and> activeFilter u) db)"

definition findOne_select_password :: "(user \<Rightarrow> bool) \<Rightarrow> user list \<Rightarrow> user option" where
  "findOne_select_password flt db = find (\<lambda>u. flt u \<and> activeFilter u) db"

text \<open>\<^verbatim>\<open>findById(undefined)\<close> finds nothing.\<close>

definition findById :: "string option \<Rightarrow> user list \<Rightarrow> user option" where
  "findById i db =
     (case i of None \<Rightarrow> None | Some k \<Rightarrow> findOne (\<lambda>u. uid u = k) db)"

definition findById_select_password :: "string option \<Rightarrow> user list \<Rightarrow> user option" where
  "findById_select_password i db =
     (case i of None \<Rightarrow> None | Some k \<Rightarrow> findOne_select_password (\<lambda>u. uid u = k) db)"

section \<open>Saving documents\<close>

text \<open>
  Truthiness of an optional string: \<^verbatim>\<open>undefined\<close> and the empty string are falsy.
\<close>

definition truthy :: "string option \<Rightarrow> bool" where
  "truthy s = (case s of None \<Rightarrow> False | Some v \<Rightarrow> v \<noteq> [])"

text \<open>
  The validators of the two password paths, as \<^verbatim>\<open>save\<close> runs them on a loaded
  document: \<^verbatim>\<open>passwordConfirmation\<close> is required and must equal \<^verbatim>\<open>this.password\<close>;
  \<^verbatim>\<open>password\<close> is required, and its \<^verbatim>\<open>minLength: 8\<close> is checked when the path is
  modified.
\<close>

definition validPasswordPaths :: "bool \<Rightarrow> user \<Rightarrow> bool" where
  "validPasswordPaths modified u =
     (case password u of
        None \<Rightarrow> False
      | Some p \<Rightarrow>
          p \<noteq> [] \<and> (if modified then 8 \<le> length p else True) \<and>
          passwordConfirmation u = Some p)"

text \<open>
  Writing a document back: the stored document with the same id is replaced; the stored
  password stays unless the path was modified.
\<close>

definition persist :: "bool \<Rightarrow> user \<Rightarrow> user list \<Rightarrow> user list" where
  "persist modified doc db =
     map (\<lambda>s. if uid s = uid doc
              then doc\<lparr> password := (if modified then password doc else password s) \<rparr>
              else s) db"

text \<open>
  \<^verbatim>\<open>doc.save(options)\<close> on a document that was loaded as \<open>loaded\<close> and changed to
  \<open>doc\<close>: validation unless \<^verbatim>\<open>validateBeforeSave: false\<close>, then the two hooks in
  the order the schema registers them, then the write. \<^verbatim>\<open>isModified('password')\<close>
  holds when the path's value differs from the loaded one.
\<close>

definition save ::
  "collaborators \<Rightarrow> bool \<Rightarrow> string \<Rightarrow> int \<Rightarrow> user \<Rightarrow> user \<Rightarrow> user list
     \<Rightarrow> failure + (user \<times> user list)" where
  "save L validateBeforeSave salt now loaded doc db =
     (let modified = (password doc \<noteq> password loaded) in
      if validateBeforeSave \<and> \<not> validPasswordPaths modified doc then Inl ValidationError
      else case hashPasswordHook L modified salt doc of
             Inl f \<Rightarrow> Inl f
           | Inr doc1 \<Rightarrow>
               (let doc2 = passwordChangedAtHook modified False now doc1
                in Inr (doc2, persist modified doc2 db)))"

text \<open>The body of a sign-up request: the fields a payload may carry.\<close>

record signup_body =
  sb_name :: "string option"
  sb_email :: "string option"
  sb_photo :: "string option"
  sb_password :: "string option"
  sb_passwordConfirmation :: "string option"
  sb_role :: "string option"
  sb_confirmed :: "bool option"

text \<open>
  Modelled from the spec: \<^verbatim>\<open>utils/filterBody\<close> is not among the sources. The spec
  calls it an allow-list: the result keeps the fields whose names are listed and no
  other.
\<close>

definition filterBody :: "signup_body \<Rightarrow> string list \<Rightarrow> signup_body" where
  "filterBody b allowed =
     \<lparr> sb_name = (if ''name'' \<in> set allowed then sb_name b else None),
       sb_email = (if ''email'' \<in> set allowed then sb_email b else None),
       sb_photo = (if ''photo'' \<in> set allowed then sb_photo b else None),
       sb_password = (if ''password'' \<in> set allowed then sb_password b else None),
       sb_passwordConfirmation =
         (if ''passwordConfirmation'' \<in> set allowed then sb_passwordConfirmation b else None),
       sb_role = (if ''role'' \<in> set allowed then sb_role b else None),
       sb_confirmed = (if ''confirmed'' \<in> set allowed then sb_confirmed b else None) \<rparr>"

text \<open>
  \<^verbatim>\<open>User.create(body)\<close>: the schema's defaults, its validators (required paths, the
  e-mail check on the lower-cased address, the role enumeration, the password length,
  the confirmation), the two hooks on a new document, and the insert under the unique
  indexes on id and e-mail. \<open>newId\<close> is the id the driver draws.
\<close>

definition User_create ::
  "collaborators \<Rightarrow> string \<Rightarrow> string \<Rightarrow> int \<Rightarrow> signup_body \<Rightarrow> user list
     \<Rightarrow> failure + (user \<times> user list)" where
  "User_create L newId salt now b db =
     (case (sb_name b, sb_email b, sb_password b) of
        (Some n, Some e, Some p) \<Rightarrow>
          (let doc = \<lparr> uid = newId, name = n, email = toLowerCase L e,
                       photo = (case sb_photo b of None \<Rightarrow> ''default.jpg'' | Some ph \<Rightarrow> ph),
                       role = (case sb_role b of None \<Rightarrow> ''user'' | Some r \<Rightarrow> r),
                       password = Some p,
                       passwordConfirmation = sb_passwordConfirmation b,
                       passwordChangedAt = None,
                       passwordResetToken = None,
                       passwordResetExpiresIn = None,
                       isActive = True,
                       confirmed = (case sb_confirmed b of None \<Rightarrow> False | Some c \<Rightarrow> c) \<rparr>
           in if n = [] \<or> e = [] \<or> \<not> isEmail L (email doc)
                 \<or> role doc \<notin> set [''user'', ''admin'', ''rep'']
                 \<or> \<not> validPasswordPaths True doc
              then Inl ValidationError
              else case hashPasswordHook L True salt doc of
                     Inl f \<Rightarrow> Inl f
                   | Inr doc1 \<Rightarrow>
                       (let doc2 = passwordChangedAtHook True True now doc1
                        in if uid doc2 \<in> set (map uid db) \<or> email doc2 \<in> set (map email db)
                           then Inl DuplicateKeyError
                           else Inr (doc2, db @ [doc2])))
      | _ \<Rightarrow> Inl ValidationError)"

section \<open>controllers/authController.js\<close>

text \<open>
  Each handler takes what it reads of the request, the values the environment supplies
  during the call (the clock, the salt of bcrypt, fresh ids and random tokens, whether
  the mail service delivers) and the stores; it returns what it hands to \<^verbatim>\<open>next\<close> or
  the response it sends, and the stores as it leaves them. One call reads the clock as
  one value.
\<close>

definition getJwtToken :: "collaborators \<Rightarrow> config \<Rightarrow> int \<Rightarrow> string \<Rightarrow> string" where
  "getJwtToken L cfg now i =
     jwt_sign L i (JWT_SECRET_KEY cfg) (JWT_EXPIRATION_TIME cfg) now"

definition sendJwtToken ::
  "collaborators \<Rightarrow> config \<Rightarrow> request \<Rightarrow> int \<Rightarrow> user \<Rightarrow> nat \<Rightarrow> response" where
  "sendJwtToken L cfg req now u code =
     (let tokenId = getJwtToken L cfg now (uid u);
          cookieOptions =
            \<lparr> cookie_name = ''jwt'', cookie_value = tokenId,
              cookie_expires = now + JWT_COOKIE_EXPIRATION_TIME cfg * 24 * 60 * 60 * 1000,
              httpOnly = True, cookie_secure = secure req \<rparr>
      in \<lparr> res_status = code, res_cookie = Some cookieOptions,
           res_json = SessionJson tokenId (u\<lparr> password := None \<rparr>) \<rparr>)"

text \<open>
  Neither caller awaits \<^verbatim>\<open>sendConfirmationMail\<close>: when the mail service throws, the
  rejection is unhandled.
\<close>

definition sendConfirmationMail ::
  "collaborators \<Rightarrow> config \<Rightarrow> request \<Rightarrow> int \<Rightarrow> bool \<Rightarrow> user \<Rightarrow> world
     \<Rightarrow> (failure + response) \<times> world" where
  "sendConfirmationMail L cfg req now mailOk u w =
     (let tokenId = getJwtToken L cfg now (uid u);
          URL = protocol req @ ''://'' @ host req @ ''/api/v1/users/confirm/'' @ tokenId
      in if mailOk
         then (Inr \<lparr> res_status = 200, res_cookie = None,
                     res_json = DataMessage
                       ''Please Confirm Your Email to continue. A link has been sent to your email address. (Valid Only For 90 days).'' \<rparr>,
               w\<lparr> outbox := outbox w @
                    [\<lparr> mail_kind = ConfirmationMail, mail_to = email u, mail_url = URL \<rparr>] \<rparr>)
         else (Inl UnhandledRejection, w))"

definition signUp ::
  "collaborators \<Rightarrow> config \<Rightarrow> request \<Rightarrow> signup_body \<Rightarrow> string \<Rightarrow> string \<Rightarrow> int \<Rightarrow> bool
     \<Rightarrow> world \<Rightarrow> (failure + response) \<times> world" where
  "signUp L cfg req body newId salt now mailOk w =
     (let filteredBody =
            (if NODE_ENV cfg = ''production''
             then filterBody body
                    [''name'', ''email'', ''photo'', ''password'', ''passwordConfirmation'']
             else filterBody body
                    [''name'', ''email'', ''photo'', ''password'', ''passwordConfirmation'',
                     ''role'', ''confirmed''])
      in case User_create L newId salt now filteredBody (users w) of
           Inl f \<Rightarrow> (Inl f, w)
         | Inr (u, db) \<Rightarrow>
             (if NODE_ENV cfg = ''production''
              then sendConfirmationMail L cfg req now mailOk u (w\<lparr> users := db \<rparr>)
              else (Inr (sendJwtToken L cfg req now u 200), w\<lparr> users := db \<rparr>)))"

text \<open>
  The query \<^verbatim>\<open>{ email }\<close> is cast by the schema, whose \<^verbatim>\<open>lowercase\<close> option
  lower-cases the address asked for.
\<close>

definition login ::
  "collaborators \<Rightarrow> config \<Rightarrow> request \<Rightarrow> string option \<Rightarrow> string option \<Rightarrow> int \<Rightarrow> world
     \<Rightarrow> failure + response" where
  "login L cfg req email_in password_in now w =
     (case (email_in, password_in) of
        (Some e, Some p) \<Rightarrow>
          (if e = [] \<or> p = []
           then Inl (AppError (ErrorHandler ''Please provide email and password to login'' 400))
           else case findOne_select_password (\<lambda>u. email u = toLowerCase L e) (users w) of
                  None \<Rightarrow> Inl (AppError (ErrorHandler ''Incorrect email or password'' 401))
                | Some u \<Rightarrow>
                    (case password u of
                       None \<Rightarrow> Inl BcryptIllegalArguments
                     | Some h \<Rightarrow>
                         if \<not> isPasswordCorrect L p h
                         then Inl (AppError (ErrorHandler ''Incorrect email or password'' 401))
                         else if \<not> confirmed u
                         then Inl (AppError
                                (ErrorHandler ''Please confirm your mail first to login'' 401))
                         else Inr (sendJwtToken L cfg req now u 200)))
      | _ \<Rightarrow> Inl (AppError (ErrorHandler ''Please provide email and password to login'' 400)))"

text \<open>\<^verbatim>\<open>s.split(' ')\<close>: the pieces between single spaces, empty pieces included.\<close>

fun split_space :: "string \<Rightarrow> string list" where
  "split_space [] = [[]]"
| "split_space (c # cs) =
     (if c = CHR '' '' then [] # split_space cs
      else case split_space cs of
             [] \<Rightarrow> [[c]]
           | p # ps \<Rightarrow> (c # p) # ps)"

definition bearer :: "string \<Rightarrow> string option" where
  "bearer header =
     (let parts = split_space header
      in if 1 < length parts then Some (parts ! 1) else None)"

text \<open>
  The token of a request: the second piece of the authorization header when the header
  is there, else the \<^verbatim>\<open>jwt\<close> cookie when that is there.
\<close>

definition tokenId_of :: "request \<Rightarrow> string option" where
  "tokenId_of req =
     (if truthy (authorization req)
      then (case authorization req of None \<Rightarrow> None | Some h \<Rightarrow> bearer h)
      else if truthy (cookies_jwt req) then cookies_jwt req
      else None)"

definition isAuthenticated ::
  "collaborators \<Rightarrow> config \<Rightarrow> request \<Rightarrow> int \<Rightarrow> world \<Rightarrow> failure + user" where
  "isAuthenticated L cfg req now w =
     (if \<not> truthy (tokenId_of req)
      then Inl (AppError (ErrorHandler
             ''You're not logged in. Please Login to get access to this URL'' 401))
      else case tokenId_of req of
             None \<Rightarrow>
               Inl (AppError (ErrorHandler
                 ''You're not logged in. Please Login to get access to this URL'' 401))
           | Some tokenId \<Rightarrow>
               (case jwt_verify L tokenId (JWT_SECRET_KEY cfg) now of
                  Inl e \<Rightarrow> Inl (TokenError e)
                | Inr decodedPayload \<Rightarrow>
                    (case findById (Some (pid decodedPayload)) (users w) of
                       None \<Rightarrow>
                         Inl (AppError (ErrorHandler
                           ''There's no account with the given email address.'' 401))
                     | Some u \<Rightarrow>
                         if isPasswordChangedAfterTokenIsIssued u (iat decodedPayload)
                         then Inl (AppError (ErrorHandler
                                ''Your account password has been changed. Please login again to continue''
                                401))
                         else Inr u)))"

text \<open>\<^verbatim>\<open>restrictTo(...roles)\<close> runs after \<^verbatim>\<open>isAuthenticated\<close> has set \<^verbatim>\<open>req.user\<close>.\<close>

definition restrictTo :: "string list \<Rightarrow> user \<Rightarrow> failure + unit" where
  "restrictTo roles req_user =
     (if role req_user \<notin> set roles
      then Inl (AppError (ErrorHandler ''You're not allowed to access this route.'' 403))
      else Inr ())"

definition forgotPassword ::
  "collaborators \<Rightarrow> request \<Rightarrow> string option \<Rightarrow> string \<Rightarrow> string \<Rightarrow> int \<Rightarrow> bool \<Rightarrow> world
     \<Rightarrow> (failure + response) \<times> world" where
  "forgotPassword L req email_in randomHex salt now mailOk w =
     (case email_in of
        None \<Rightarrow>
          (Inl (AppError (ErrorHandler
             ''Please provide email address to change your password.'' 400)), w)
      | Some e \<Rightarrow>
          if e = []
          then (Inl (AppError (ErrorHandler
                  ''Please provide email address to change your password.'' 400)), w)
          else case findOne (\<lambda>u. email u = toLowerCase L e) (users w) of
                 None \<Rightarrow>
                   (Inl (AppError (ErrorHandler ''No user exists with that email id'' 404)), w)
               | Some u \<Rightarrow>
                   (case createPasswordResetToken L randomHex now u of
                      (resetToken, u1) \<Rightarrow>
                        (case save L False salt now u u1 (users w) of
                           Inl f \<Rightarrow> (Inl f, w)
                         | Inr (u2, db1) \<Rightarrow>
                             (let resetURL = protocol req @ ''://'' @ host req
                                    @ ''/api/v1/user/resetPassword/'' @ resetToken;
                                  w1 = w\<lparr> users := db1 \<rparr>
                              in if mailOk
                                 then (Inr \<lparr> res_status = 200, res_cookie = None,
                                             res_json = TopMessage
                                               ''Token Id (URL) to reset your password was sent to your email address.'' \<rparr>,
                                       w1\<lparr> outbox := outbox w1 @
                                            [\<lparr> mail_kind = ResetPasswordMail,
                                               mail_to = email u2, mail_url = resetURL \<rparr>] \<rparr>)
                                 else (let u3 = u2\<lparr> passwordResetToken := None,
                                                     passwordResetExpiresIn := None \<rparr>
                                       in case save L False salt now u2 u3 db1 of
                                            Inl f \<Rightarrow> (Inl f, w1)
                                          | Inr (u4, db2) \<Rightarrow>
                                              (Inl (AppError (ErrorHandler
                                                 ''There's some problem with sending email. Please try again later.''
                                                 500)),
                                               w1\<lparr> users := db2 \<rparr>))))))"

text \<open>
  The filter of \<^verbatim>\<open>resetPassword\<close>: the stored hash equals the hashed token and the
  stored expiry is greater than the clock.
\<close>

definition resetFilter :: "string \<Rightarrow> int \<Rightarrow> user \<Rightarrow> bool" where
  "resetFilter hashedToken now u =
     (passwordResetToken u = Some hashedToken \<and>
      (case passwordResetExpiresIn u of None \<Rightarrow> False | Some e \<Rightarrow> e > now))"

definition resetPassword ::
  "collaborators \<Rightarrow> config \<Rightarrow> request \<Rightarrow> string \<Rightarrow> string option \<Rightarrow> string option \<Rightarrow> string
     \<Rightarrow> int \<Rightarrow> world \<Rightarrow> (failure + response) \<times> world" where
  "resetPassword L cfg req resetToken password_in passwordConfirmation_in salt now w =
     (let hashedToken = sha256_hex L resetToken
      in case findOne (resetFilter hashedToken now) (users w) of
           None \<Rightarrow> (Inl (AppError (ErrorHandler ''Token is invalid or expired.'' 400)), w)
         | Some u \<Rightarrow>
             (let u1 = u\<lparr> password := password_in,
                          passwordConfirmation := passwordConfirmation_in,
                          passwordResetToken := None,
                          passwordResetExpiresIn := None \<rparr>
              in case save L True salt now u u1 (users w) of
                   Inl f \<Rightarrow> (Inl f, w)
                 | Inr (u2, db) \<Rightarrow>
                     (Inr (sendJwtToken L cfg req now u2 200), w\<lparr> users := db \<rparr>)))"

definition updatePassword ::
  "collaborators \<Rightarrow> config \<Rightarrow> request \<Rightarrow> user \<Rightarrow> string option \<Rightarrow> string option
     \<Rightarrow> string option \<Rightarrow> string \<Rightarrow> int \<Rightarrow> world \<Rightarrow> (failure + response) \<times> world" where
  "updatePassword L cfg req req_user currentPassword newPassword newPasswordConfirmation
       salt now w =
     (case findById_select_password (Some (uid req_user)) (users w) of
        None \<Rightarrow>
          (Inl (AppError (ErrorHandler
             ''Given password doesn't match the current password. If you've forgotten the password use forgot password URL''
             401)), w)
      | Some u \<Rightarrow>
          (case (currentPassword, password u) of
             (Some cur, Some h) \<Rightarrow>
               if \<not> isPasswordCorrect L cur h
               then (Inl (AppError (ErrorHandler
                       ''Given password doesn't match the current password. If you've forgotten the password use forgot password URL''
                       401)), w)
               else (let u1 = u\<lparr> password := newPassword,
                                  passwordConfirmation := newPasswordConfirmation \<rparr>
                     in case save L True salt now u u1 (users w) of
                          Inl f \<Rightarrow> (Inl f, w)
                        | Inr (u2, db) \<Rightarrow>
                            (Inr (sendJwtToken L cfg req now u2 200), w\<lparr> users := db \<rparr>))
           | _ \<Rightarrow> (Inl BcryptIllegalArguments, w)))"

section \<open>The Completed controller\<close>

definition setCompletedBody :: "completed_body \<Rightarrow> string option \<Rightarrow> completed_body" where
  "setCompletedBody body params_userId =
     (if \<not> truthy (b_user body) then body\<lparr> b_user := params_userId \<rparr> else body)"

definition Completed_findById :: "string \<Rightarrow> completed list \<Rightarrow> completed option" where
  "Completed_findById i cs = find (\<lambda>c. cid c = i) cs"

definition Test_findById :: "string option \<Rightarrow> string list \<Rightarrow> string option" where
  "Test_findById i ts = (case i of None \<Rightarrow> None | Some k \<Rightarrow> find (\<lambda>t. t = k) ts)"

text \<open>
  \<^verbatim>\<open>Completed.create(req.body)\<close>: both references are required; \<open>newId\<close> is the id
  the driver draws, \<open>now\<close> the default timestamp.
\<close>

definition Completed_create ::
  "string \<Rightarrow> int \<Rightarrow> completed_body \<Rightarrow> completed list \<Rightarrow> failure + (completed \<times> completed list)"
  where
  "Completed_create newId now body cs =
     (case (b_test body, b_user body) of
        (Some t, Some u) \<Rightarrow>
          (let doc = \<lparr> cid = newId, c_test = t, c_user = u, completedAt = now \<rparr>
           in if newId \<in> set (map cid cs) then Inl DuplicateKeyError
              else Inr (doc, cs @ [doc]))
      | _ \<Rightarrow> Inl ValidationError)"

definition addNewCompleted ::
  "collaborators \<Rightarrow> user \<Rightarrow> string option \<Rightarrow> completed_body \<Rightarrow> string \<Rightarrow> int \<Rightarrow> world
     \<Rightarrow> (failure + response) \<times> world" where
  "addNewCompleted L req_user params_userId body newId now w =
     (case findById params_userId (users w) of
        None \<Rightarrow> (Inl (AppError (ErrorHandler ''No user exists with the given Id.'' 404)), w)
      | Some u \<Rightarrow>
          (case Test_findById (b_test body) (tests w) of
             None \<Rightarrow>
               (Inl (AppError (ErrorHandler ''No test exists with the given Id.'' 404)), w)
           | Some t \<Rightarrow>
               if \<not> isMemberOfSameTeam L t (case params_userId of None \<Rightarrow> [] | Some k \<Rightarrow> k)
                  \<and> role req_user \<noteq> ''admin''
               then (Inl (AppError (ErrorHandler
                       ''You don't belong in this team to mark this test as applied.'' 401)), w)
               else case Completed_create newId now body (completeds w) of
                      Inl f \<Rightarrow> (Inl f, w)
                    | Inr (doc, cs) \<Rightarrow>
                        (Inr \<lparr> res_status = 201, res_cookie = None,
                               res_json = CompletedDocument doc \<rparr>,
                         w\<lparr> completeds := cs \<rparr>)))"

text \<open>
  \<^verbatim>\<open>findByIdAndUpdate(id, req.body, { runValidators: true, new: true })\<close>: the fields
  the body carries replace the stored ones; the updated document is returned.
\<close>

definition apply_body :: "completed_body \<Rightarrow> completed \<Rightarrow> completed" where
  "apply_body body c =
     c\<lparr> c_test := (case b_test body of None \<Rightarrow> c_test c | Some t \<Rightarrow> t),
        c_user := (case b_user body of None \<Rightarrow> c_user c | Some u \<Rightarrow> u) \<rparr>"

fun update_first :: "('a \<Rightarrow> bool) \<Rightarrow> ('a \<Rightarrow> 'a) \<Rightarrow> 'a list \<Rightarrow> 'a list" where
  "update_first P f [] = []"
| "update_first P f (x # xs) = (if P x then f x # xs else x # update_first P f xs)"

fun delete_first :: "('a \<Rightarrow> bool) \<Rightarrow> 'a list \<Rightarrow> 'a list" where
  "delete_first P [] = []"
| "delete_first P (x # xs) = (if P x then xs else x # delete_first P xs)"

definition updateCompleted ::
  "user \<Rightarrow> string \<Rightarrow> completed_body \<Rightarrow> world \<Rightarrow> (failure + response) \<times> world" where
  "updateCompleted req_user i body w =
     (case Completed_findById i (completeds w) of
        None \<Rightarrow>
          (Inl (AppError (ErrorHandler
             ''No Completed Test was found with the given id.'' 404)), w)
      | Some currentCompleted \<Rightarrow>
          if c_user currentCompleted \<noteq> uid req_user \<and> role req_user \<noteq> ''admin''
          then (Inl (AppError (ErrorHandler
                  ''You don't have permission to do this action.'' 401)), w)
          else (Inr \<lparr> res_status = 200, res_cookie = None,
                      res_json = CompletedDocument (apply_body body currentCompleted) \<rparr>,
                w\<lparr> completeds :=
                     update_first (\<lambda>c. cid c = i) (apply_body body) (completeds w) \<rparr>))"

definition deleteCompleted ::
  "user \<Rightarrow> string \<Rightarrow> world \<Rightarrow> (failure + response) \<times> world" where
  "deleteCompleted req_user i w =
     (case Completed_findById i (completeds w) of
        None \<Rightarrow>
          (Inl (AppError (ErrorHandler
             ''No Completed Test was found with the given id.'' 404)), w)
      | Some currentCompleted \<Rightarrow>
          if c_user currentCompleted \<noteq> uid req_user \<and> role req_user \<noteq> ''admin''
          then (Inl (AppError (ErrorHandler
                  ''You don't have permission to do this action.'' 401)), w)
          else (Inr \<lparr> res_status = 204, res_cookie = None, res_json = NullData \<rparr>,
                w\<lparr> completeds := delete_first (\<lambda>c. cid c = i) (completeds w) \<rparr>))"

section \<open>A sample installation\<close>

text \<open>
  Small stand-ins for the libraries, so that the handlers can be run: a hash that puts
  the salt before the password, a digest that tags its input, tokens that carry the id
  and the issue time in seconds (in unary), a team with the single member \<open>u2\<close> for
  the test \<open>t1\<close>.
\<close>

definition lib0 :: collaborators where
  "lib0 =
     \<lparr> bcrypt_hash = (\<lambda>p r s. s @ p),
       bcrypt_compare = (\<lambda>p h. drop 4 h = p),
       sha256_hex = (\<lambda>s. ''h:'' @ s),
       jwt_sign = (\<lambda>i secret e now. i @ ''.'' @ replicate (nat (now div 1000)) (CHR ''1'')),
       jwt_verify = (\<lambda>tok secret now.
          if CHR ''.'' \<in> set tok
          then Inr \<lparr> pid = takeWhile (\<lambda>c. c \<noteq> CHR ''.'') tok,
                     iat = int (length (dropWhile (\<lambda>c. c \<noteq> CHR ''.'') tok)) - 1 \<rparr>
          else Inl JsonWebTokenError),
       isEmail = (\<lambda>s. CHR ''@'' \<in> set s),
       toLowerCase = (\<lambda>s. s),
       isMemberOfSameTeam = (\<lambda>t u. t = ''t1'' \<and> u = ''u2'') \<rparr>"

definition prod_cfg :: config where
  "prod_cfg = \<lparr> NODE_ENV = ''production'', JWT_SECRET_KEY = ''k'',
                JWT_EXPIRATION_TIME = ''90d'', JWT_COOKIE_EXPIRATION_TIME = 90 \<rparr>"

definition dev_cfg :: config where
  "dev_cfg = \<lparr> NODE_ENV = ''development'', JWT_SECRET_KEY = ''k'',
               JWT_EXPIRATION_TIME = ''90d'', JWT_COOKIE_EXPIRATION_TIME = 90 \<rparr>"

definition plain_req :: request where
  "plain_req = \<lparr> authorization = None, cookies_jwt = None, secure = False,
                 protocol = ''http'', host = ''h'' \<rparr>"

definition bearer_req :: "string \<Rightarrow> request" where
  "bearer_req tok = plain_req\<lparr> authorization := Some (''Bearer '' @ tok) \<rparr>"

definition alice :: user where
  "alice = \<lparr> uid = ''u1'', name = ''Alice'', email = ''a@x'', photo = ''default.jpg'',
             role = ''user'', password = Some ''saltalicepass'', passwordConfirmation = None,
             passwordChangedAt = None, passwordResetToken = Some ''h:r1'',
             passwordResetExpiresIn = Some 600000, isActive = True, confirmed = True \<rparr>"

definition bob :: user where
  "bob = \<lparr> uid = ''u2'', name = ''Bob'', email = ''b@x'', photo = ''default.jpg'',
           role = ''user'', password = Some ''saltbobpasswd'', passwordConfirmation = None,
           passwordChangedAt = None, passwordResetToken = None,
           passwordResetExpiresIn = None, isActive = True, confirmed = True \<rparr>"

definition carol :: user where
  "carol = \<lparr> uid = ''u3'', name = ''Carol'', email = ''c@x'', photo = ''default.jpg'',
             role = ''admin'', password = Some ''saltcarolpass'', passwordConfirmation = None,
             passwordChangedAt = None, passwordResetToken = None,
             passwordResetExpiresIn = None, isActive = True, confirmed = True \<rparr>"

definition dave :: user where
  "dave = \<lparr> uid = ''u4'', name = ''Dave'', email = ''d@x'', photo = ''default.jpg'',
            role = ''user'', password = Some ''saltdavepassw'', passwordConfirmation = None,
            passwordChangedAt = None, passwordResetToken = None,
            passwordResetExpiresIn = None, isActive = False, confirmed = True \<rparr>"

definition rec1 :: completed where
  "rec1 = \<lparr> cid = ''c1'', c_test = ''t1'', c_user = ''u2'', completedAt = 1000 \<rparr>"

definition w0 :: world where
  "w0 = \<lparr> users = [alice, bob, carol, dave], tests = [''t1''], completeds = [rec1],
          outbox = [] \<rparr>"

definition eve_body :: signup_body where
  "eve_body = \<lparr> sb_name = Some ''Eve'', sb_email = Some ''e@x'', sb_photo = None,
                sb_password = Some ''secret123'', sb_passwordConfirmation = Some ''secret123'',
                sb_role = Some ''admin'', sb_confirmed = Some True \<rparr>"


text \<open>
  Alice as a query loads her, and as stored after her password was changed to
  \<open>newpassword\<close> at clock 10000.
\<close>

definition alice_loaded :: user where
  "alice_loaded = alice\<lparr> password := None \<rparr>"

definition alice_changed :: user where
  "alice_changed =
     alice\<lparr> password := Some ''saltnewpassword'', passwordChangedAt := Some 9000 \<rparr>"

section \<open>Properties\<close>

subsection \<open>Queries and saves\<close>

lemma statusCode_ErrorHandler: "statusCode (ErrorHandler m c) = c"
  by (simp add: ErrorHandler_def)

lemma findOne_None:
  "\<forall>u \<in> set db. \<not> (flt u \<and> activeFilter u) \<Longrightarrow> findOne flt db = None"
  by (simp add: findOne_def find_None_iff)

lemma findOne_SomeD:
  assumes "findOne flt db = Some u"
  shows "\<exists>s \<in> set db. flt s \<and> activeFilter s \<and> u = s\<lparr> password := None \<rparr>"
proof -
  from assms obtain s where s: "find (\<lambda>x. flt x \<and> activeFilter x) db = Some s"
    and u: "u = s\<lparr> password := None \<rparr>"
    by (auto simp: findOne_def)
  from s have "s \<in> set db \<and> flt s \<and> activeFilter s"
    by (auto simp: find_Some_iff)
  with u show ?thesis by blast
qed

lemma find_eq_member: "t \<in> set ts \<Longrightarrow> find (\<lambda>x. x = t) ts = Some t"
  by (induction ts) auto

text \<open>A save that leaves the password path alone runs no hook and only writes.\<close>

lemma save_unmodified:
  "password doc = password loaded \<Longrightarrow>
   save L False salt now loaded doc db = Inr (doc, persist False doc db)"
  by (simp add: save_def hashPasswordHook_def passwordChangedAtHook_def)

text \<open>A save that modifies the password path stamps the document with the clock less 1000.\<close>

lemma save_modified:
  assumes "save L v salt T loaded doc db = Inr (doc', db')"
    and "password doc \<noteq> password loaded"
  shows "uid doc' = uid doc \<and> passwordChangedAt doc' = Some (T - 1000) \<and>
         db' = persist True doc' db"
  using assms
  by (auto simp: save_def hashPasswordHook_def passwordChangedAtHook_def Let_def
      split: if_splits option.splits)

lemma findById_persist:
  assumes "findById (Some (uid d)) (persist True d db) = Some y"
  shows "y = d\<lparr> password := None \<rparr>"
proof -
  from assms have "findOne (\<lambda>u. uid u = uid d) (persist True d db) = Some y"
    by (simp add: findById_def)
  from findOne_SomeD [OF this] obtain s where s: "s \<in> set (persist True d db)"
    and us: "uid s = uid d" and y: "y = s\<lparr> password := None \<rparr>" by blast
  from s us have "s = d" by (auto simp: persist_def split: if_splits)
  with y show ?thesis by simp
qed

subsection \<open>Role restriction\<close>

text \<open>
  Claim C9. For every set of allowed roles and every authenticated user,
  \<^verbatim>\<open>restrictTo\<close> hands the 403 error to \<^verbatim>\<open>next\<close> when the user's role is not in
  the set and lets the request pass when it is; so \<^verbatim>\<open>restrictTo('admin')\<close> denies a
  caller of role \<^verbatim>\<open>user\<close> and allows one of role \<^verbatim>\<open>admin\<close>.
\<close>

theorem restrictTo_role_in_set:
  "(role req_user \<notin> set roles \<longrightarrow>
      restrictTo roles req_user =
        Inl (AppError (ErrorHandler ''You're not allowed to access this route.'' 403))) \<and>
   (role req_user \<in> set roles \<longrightarrow> restrictTo roles req_user = Inr ()) \<and>
   statusCode (ErrorHandler ''You're not allowed to access this route.'' 403) = 403"
  by (simp add: restrictTo_def ErrorHandler_def)

theorem restrictTo_role_in_set_witness:
  "role alice \<notin> set [''admin''] \<and>
   restrictTo [''admin''] alice =
     Inl (AppError (ErrorHandler ''You're not allowed to access this route.'' 403)) \<and>
   role carol \<in> set [''admin''] \<and> restrictTo [''admin''] carol = Inr ()"
  using restrictTo_role_in_set [of alice "[''admin'']"]
        restrictTo_role_in_set [of carol "[''admin'']"]
  by (simp add: alice_def carol_def)

subsection \<open>Soft-deleted users\<close>

text \<open>
  Claim C10. A request carries a token that verifies, and every stored user with the
  token's id has \<^verbatim>\<open>isActive\<close> false. Then \<^verbatim>\<open>isAuthenticated\<close> fails with the 401
  error of a missing account: the filter of the find hook hides the user from
  \<^verbatim>\<open>findById\<close>.
\<close>

theorem isAuthenticated_inactive_user:
  assumes "tokenId_of req = Some tokenId" and "tokenId \<noteq> []"
    and "jwt_verify L tokenId (JWT_SECRET_KEY cfg) now = Inr decodedPayload"
    and "\<forall>u \<in> set (users w). uid u = pid decodedPayload \<longrightarrow> isActive u = False"
  shows "isAuthenticated L cfg req now w =
           Inl (AppError (ErrorHandler
             ''There's no account with the given email address.'' 401))"
proof -
  have "findById (Some (pid decodedPayload)) (users w) = None"
    using assms(4) by (auto simp: findById_def activeFilter_def intro!: findOne_None)
  then show ?thesis
    using assms(1-3) by (simp add: isAuthenticated_def truthy_def)
qed

theorem isAuthenticated_inactive_user_witness:
  "tokenId_of (bearer_req ''u4.111'') = Some ''u4.111'' \<and>
   jwt_verify lib0 ''u4.111'' (JWT_SECRET_KEY dev_cfg) 20000 = Inr \<lparr> pid = ''u4'', iat = 3 \<rparr> \<and>
   filter (\<lambda>u. uid u = ''u4'') (users w0) = [dave] \<and> isActive dave = False \<and>
   isAuthenticated lib0 dev_cfg (bearer_req ''u4.111'') 20000 w0 =
     Inl (AppError (ErrorHandler ''There's no account with the given email address.'' 401))"
proof -
  have t: "tokenId_of (bearer_req ''u4.111'') = Some ''u4.111''"
    by (simp add: tokenId_of_def bearer_req_def plain_req_def truthy_def bearer_def)
  have v: "jwt_verify lib0 ''u4.111'' (JWT_SECRET_KEY dev_cfg) 20000
             = Inr \<lparr> pid = ''u4'', iat = 3 \<rparr>"
    by (simp add: lib0_def)
  have a: "\<forall>u \<in> set (users w0). uid u = pid \<lparr> pid = ''u4'', iat = 3 \<rparr> \<longrightarrow> isActive u = False"
    by (simp add: w0_def alice_def bob_def carol_def dave_def)
  have d: "filter (\<lambda>u. uid u = ''u4'') (users w0) = [dave] \<and> isActive dave = False"
    by (simp add: w0_def alice_def bob_def carol_def dave_def)
  show ?thesis
    using isAuthenticated_inactive_user [OF t _ v a] t v d by simp
qed

text \<open>Whoever passes \<^verbatim>\<open>isAuthenticated\<close> is a stored, active user.\<close>

lemma isAuthenticated_returns_active:
  assumes "isAuthenticated L cfg req now w = Inr u"
  shows "isActive u \<and> (\<exists>s \<in> set (users w). u = s\<lparr> password := None \<rparr>)"
proof -
  from assms obtain k where "findById (Some k) (users w) = Some u"
    by (auto simp: isAuthenticated_def split: if_splits option.splits sum.splits)
  then have "findOne (\<lambda>x. uid x = k) (users w) = Some u" by (simp add: findById_def)
  from findOne_SomeD [OF this] show ?thesis by (auto simp: activeFilter_def)
qed

subsection \<open>Tokens and password changes\<close>

lemma issued_early_is_stale:
  "0 \<le> t \<Longrightarrow> t + 2000 \<le> T \<Longrightarrow> t div 1000 < parseInt_div1000 (T - 1000)"
  by (simp add: parseInt_div1000_def)

lemma issued_late_is_fresh:
  assumes "0 \<le> t" and "T \<le> t + 1000"
  shows "\<not> t div 1000 < parseInt_div1000 (T - 1000)"
proof (cases "0 \<le> T - 1000")
  case True
  have "(T - 1000) div 1000 \<le> t div 1000"
    using assms(2) by (intro zdiv_mono1) simp_all
  with True show ?thesis by (simp add: parseInt_div1000_def)
next
  case False
  then have "0 \<le> (1000 - T) div 1000"
    by (simp add: pos_imp_zdiv_nonneg_iff)
  moreover have "0 \<le> t div 1000"
    using assms(1) by (simp add: pos_imp_zdiv_nonneg_iff)
  ultimately show ?thesis using False by (simp add: parseInt_div1000_def)
qed

text \<open>
  A successful \<^verbatim>\<open>resetPassword\<close> is a save of the user the token selects, with the
  password path modified, at the clock of the call.
\<close>

lemma resetPassword_is_password_change:
  assumes "resetPassword L cfg req resetToken password_in confirmation_in salt T w = (Inr resp, w')"
  shows "\<exists>u doc doc'.
           findOne (resetFilter (sha256_hex L resetToken) T) (users w) = Some u \<and>
           uid doc = uid u \<and> password doc \<noteq> password u \<and>
           save L True salt T u doc (users w) = Inr (doc', users w')"
proof -
  from assms obtain u where u: "findOne (resetFilter (sha256_hex L resetToken) T) (users w) = Some u"
    by (auto simp: resetPassword_def split: option.splits)
  define doc where "doc = u\<lparr> password := password_in, passwordConfirmation := confirmation_in,
                              passwordResetToken := None, passwordResetExpiresIn := None \<rparr>"
  from assms u obtain doc' where s: "save L True salt T u doc (users w) = Inr (doc', users w')"
    by (auto simp: resetPassword_def Let_def doc_def split: sum.splits)
  from findOne_SomeD [OF u] have "password u = None" by auto
  moreover from s have "password doc \<noteq> None"
    by (auto simp: save_def validPasswordPaths_def Let_def split: if_splits option.splits)
  ultimately have m: "password doc \<noteq> password u" by simp
  have i: "uid doc = uid u" by (simp add: doc_def)
  from u i m s show ?thesis by blast
qed

text \<open>
  A successful \<^verbatim>\<open>updatePassword\<close> is a save of the acting user's document with the
  new password; the path is modified unless the new password is the stored hash itself.
\<close>

lemma updatePassword_is_password_change:
  assumes "updatePassword L cfg req req_user cur new conf salt T w = (Inr resp, w')"
  shows "\<exists>u doc doc'.
           findById_select_password (Some (uid req_user)) (users w) = Some u \<and>
           uid doc = uid u \<and> password doc = new \<and>
           save L True salt T u doc (users w) = Inr (doc', users w')"
proof -
  from assms obtain u where
    u: "findById_select_password (Some (uid req_user)) (users w) = Some u"
    by (auto simp: updatePassword_def split: option.splits)
  define doc where "doc = u\<lparr> password := new, passwordConfirmation := conf \<rparr>"
  from assms u obtain doc' where s: "save L True salt T u doc (users w) = Inr (doc', users w')"
    by (auto simp: updatePassword_def Let_def doc_def
        split: sum.splits option.splits if_splits)
  have "uid doc = uid u" "password doc = new" by (simp_all add: doc_def)
  with u s show ?thesis by blast
qed

text \<open>
  Claim C1, as the code has it. A user's password is changed at clock \<open>T\<close>: a save of
  the user's document with the password path modified. A request then carries a token
  that verifies, is held by that user and was issued at clock \<open>t\<close> (its \<^verbatim>\<open>iat\<close> is
  \<open>t\<close> in whole seconds), and the user is still found. The hook stores \<open>T - 1000\<close>,
  and the check compares whole seconds: \<^verbatim>\<open>isAuthenticated\<close> fails with the 401 error
  of a changed password exactly when \<open>t div 1000\<close> is less than the stored clock in
  seconds. So a token issued two seconds or more before \<open>T\<close> fails, and a token
  issued no earlier than one second before \<open>T\<close>, in particular any token issued
  after \<open>T\<close>, passes the check.
\<close>

theorem stale_token_after_password_change:
  assumes saved: "save L v salt T loaded doc (users w) = Inr (doc', db')"
    and changed: "password doc \<noteq> password loaded"
    and tok: "tokenId_of req = Some tokenId" "tokenId \<noteq> []"
    and verified: "jwt_verify L tokenId (JWT_SECRET_KEY cfg) now = Inr decodedPayload"
    and holder: "pid decodedPayload = uid doc"
    and issued: "iat decodedPayload = t div 1000" "0 \<le> t"
    and found: "findById (Some (uid doc)) db' \<noteq> None"
  shows "isAuthenticated L cfg req now (w\<lparr> users := db' \<rparr>) =
           (if t div 1000 < parseInt_div1000 (T - 1000)
            then Inl (AppError (ErrorHandler
                   ''Your account password has been changed. Please login again to continue''
                   401))
            else Inr (doc'\<lparr> password := None \<rparr>)) \<and>
         (t + 2000 \<le> T \<longrightarrow>
            isAuthenticated L cfg req now (w\<lparr> users := db' \<rparr>) =
              Inl (AppError (ErrorHandler
                ''Your account password has been changed. Please login again to continue''
                401))) \<and>
         (T \<le> t + 1000 \<longrightarrow>
            isAuthenticated L cfg req now (w\<lparr> users := db' \<rparr>) =
              Inr (doc'\<lparr> password := None \<rparr>))"
proof -
  from save_modified [OF saved changed]
  have u: "uid doc' = uid doc" and c: "passwordChangedAt doc' = Some (T - 1000)"
    and db': "db' = persist True doc' (users w)" by simp_all
  from found obtain y where y: "findById (Some (uid doc')) (persist True doc' (users w)) = Some y"
    using u db' by auto
  from findById_persist [OF y] y u db'
  have f: "findById (Some (uid doc)) db' = Some (doc'\<lparr> password := None \<rparr>)" by simp
  have main: "isAuthenticated L cfg req now (w\<lparr> users := db' \<rparr>) =
           (if t div 1000 < parseInt_div1000 (T - 1000)
            then Inl (AppError (ErrorHandler
                   ''Your account password has been changed. Please login again to continue''
                   401))
            else Inr (doc'\<lparr> password := None \<rparr>))"
    using tok verified holder issued(1) f c
    by (simp add: isAuthenticated_def truthy_def isPasswordChangedAfterTokenIsIssued_def)
  show ?thesis
    using main issued_early_is_stale [OF issued(2)] issued_late_is_fresh [OF issued(2)]
    by simp
qed

text \<open>
  Alice's password is changed at clock 10000. Her token issued at clock 8000 is
  refused; her token issued at clock 10000 is accepted.
\<close>

theorem stale_token_after_password_change_witness:
  "isAuthenticated lib0 dev_cfg (bearer_req ''u1.11111111'') 20000
      (w0\<lparr> users := [alice_changed, bob, carol, dave] \<rparr>) =
     Inl (AppError (ErrorHandler
       ''Your account password has been changed. Please login again to continue'' 401)) \<and>
   isAuthenticated lib0 dev_cfg (bearer_req ''u1.1111111111'') 20000
      (w0\<lparr> users := [alice_changed, bob, carol, dave] \<rparr>) =
     Inr (alice_changed\<lparr> password := None \<rparr>)"
proof -
  have s: "save lib0 True ''salt'' 10000 alice_loaded
             (alice_loaded\<lparr> password := Some ''newpassword'',
                             passwordConfirmation := Some ''newpassword'' \<rparr>) (users w0)
           = Inr (alice_changed, [alice_changed, bob, carol, dave])"
    by code_simp
  have c: "password (alice_loaded\<lparr> password := Some ''newpassword'',
                             passwordConfirmation := Some ''newpassword'' \<rparr>)
             \<noteq> password alice_loaded"
    by (simp add: alice_loaded_def)
  have t1: "tokenId_of (bearer_req ''u1.11111111'') = Some ''u1.11111111''"
    by code_simp
  have t2: "tokenId_of (bearer_req ''u1.1111111111'') = Some ''u1.1111111111''"
    by code_simp
  have v1: "jwt_verify lib0 ''u1.11111111'' (JWT_SECRET_KEY dev_cfg) 20000
              = Inr \<lparr> pid = ''u1'', iat = 8 \<rparr>"
    by (simp add: lib0_def)
  have v2: "jwt_verify lib0 ''u1.1111111111'' (JWT_SECRET_KEY dev_cfg) 20000
              = Inr \<lparr> pid = ''u1'', iat = 10 \<rparr>"
    by (simp add: lib0_def)
  have h: "pid \<lparr> pid = ''u1'', iat = 8 \<rparr> =
             uid (alice_loaded\<lparr> password := Some ''newpassword'',
                                 passwordConfirmation := Some ''newpassword'' \<rparr>)"
     "pid \<lparr> pid = ''u1'', iat = 10 \<rparr> =
             uid (alice_loaded\<lparr> password := Some ''newpassword'',
                                 passwordConfirmation := Some ''newpassword'' \<rparr>)"
    by (simp_all add: alice_loaded_def alice_def)
  have f: "findById (Some (uid (alice_loaded\<lparr> password := Some ''newpassword'',
                             passwordConfirmation := Some ''newpassword'' \<rparr>)))
             [alice_changed, bob, carol, dave] \<noteq> None"
    by code_simp
  have i1: "iat \<lparr> pid = ''u1'', iat = 8 \<rparr> = 8000 div 1000"
    and i2: "iat \<lparr> pid = ''u1'', iat = 10 \<rparr> = 10000 div 1000" by simp_all
  have n1: "''u1.11111111'' \<noteq> []" and n2: "''u1.1111111111'' \<noteq> []" by simp_all
  have z1: "(0::int) \<le> 8000" and z2: "(0::int) \<le> 10000" by simp_all
  have e1: "(8000::int) + 2000 \<le> 10000" and e2: "(10000::int) \<le> 10000 + 1000" by simp_all
  note a = stale_token_after_password_change [OF s c t1 n1 v1 h(1) i1 z1 f]
  note b = stale_token_after_password_change [OF s c t2 n2 v2 h(2) i2 z2 f]
  from a [THEN conjunct2, THEN conjunct1, THEN mp, OF e1]
       b [THEN conjunct2, THEN conjunct2, THEN mp, OF e2]
  show ?thesis by (rule conjI)
qed

text \<open>
  Against claim C1 as stated: Alice resets her password at clock 10000, which stores
  9000; her token issued at clock 9500, before the change, still authenticates.
\<close>

theorem token_issued_before_change_counterexample:
  "(9500::int) < 10000 \<and>
   users (snd (resetPassword lib0 dev_cfg plain_req ''r1'' (Some ''newpassword'')
                 (Some ''newpassword'') ''salt'' 10000 w0)) =
     [alice\<lparr> password := Some ''saltnewpassword'', passwordChangedAt := Some 9000,
             passwordResetToken := None, passwordResetExpiresIn := None \<rparr>,
      bob, carol, dave] \<and>
   isAuthenticated lib0 dev_cfg (bearer_req (getJwtToken lib0 dev_cfg 9500 ''u1'')) 20000
     (snd (resetPassword lib0 dev_cfg plain_req ''r1'' (Some ''newpassword'')
             (Some ''newpassword'') ''salt'' 10000 w0)) =
     Inr (alice\<lparr> password := None, passwordChangedAt := Some 9000,
                 passwordResetToken := None, passwordResetExpiresIn := None \<rparr>)"
  by code_simp

subsection \<open>Reset tokens\<close>

text \<open>
  Claim C7. \<^verbatim>\<open>createPasswordResetToken\<close> returns the plain token and leaves on the
  document the SHA-256 digest of that token and an expiry ten minutes after the clock:
  hashing the returned token gives the stored \<^verbatim>\<open>passwordResetToken\<close>, and the filter
  of \<^verbatim>\<open>resetPassword\<close> accepts the document for the returned token as long as the
  clock is before the expiry.
\<close>

theorem createPasswordResetToken_roundtrip:
  "fst (createPasswordResetToken L randomHex now u) = randomHex \<and>
   passwordResetToken (snd (createPasswordResetToken L randomHex now u))
     = Some (sha256_hex L (fst (createPasswordResetToken L randomHex now u))) \<and>
   passwordResetExpiresIn (snd (createPasswordResetToken L randomHex now u))
     = Some (now + 10 * 60 * 1000) \<and>
   resetFilter (sha256_hex L (fst (createPasswordResetToken L randomHex now u))) t
     (snd (createPasswordResetToken L randomHex now u)) = (t < now + 10 * 60 * 1000)"
  by (simp add: createPasswordResetToken_def resetFilter_def)

text \<open>
  The round trip through the handlers: after \<^verbatim>\<open>forgotPassword\<close> has mailed a token,
  the lookup of \<^verbatim>\<open>resetPassword\<close> for that token finds a user until the expiry.
\<close>

lemma forgotPassword_then_reset_lookup:
  assumes "e \<noteq> []" and "findOne (\<lambda>x. email x = toLowerCase L e) (users w) = Some u"
    and "t < now + 600000"
  shows "findOne (resetFilter (sha256_hex L randomHex) t)
           (users (snd (forgotPassword L req (Some e) randomHex salt now True w))) \<noteq> None"
proof -
  from findOne_SomeD [OF assms(2)] obtain s where s: "s \<in> set (users w)"
    and a: "activeFilter s" and u: "u = s\<lparr> password := None \<rparr>" by blast
  define u1 where "u1 = u\<lparr> passwordResetToken := Some (sha256_hex L randomHex),
                            passwordResetExpiresIn := Some (now + 600000) \<rparr>"
  have r: "users (snd (forgotPassword L req (Some e) randomHex salt now True w))
             = persist False u1 (users w)"
    using assms(1,2) u
    by (simp add: forgotPassword_def createPasswordResetToken_def save_unmodified Let_def u1_def)
  have "u1\<lparr> password := password s \<rparr> \<in> set (persist False u1 (users w))"
    using s by (auto simp: persist_def u1_def u intro!: image_eqI [where x = s])
  moreover have "resetFilter (sha256_hex L randomHex) t (u1\<lparr> password := password s \<rparr>)
                 \<and> activeFilter (u1\<lparr> password := password s \<rparr>)"
    using a assms(3) by (simp add: resetFilter_def activeFilter_def u1_def u)
  ultimately have "find (\<lambda>x. resetFilter (sha256_hex L randomHex) t x \<and> activeFilter x)
                     (persist False u1 (users w)) \<noteq> None"
    by (auto simp: find_None_iff)
  then show ?thesis by (simp add: r findOne_def)
qed

text \<open>
  Claim C4. When every stored user either has another reset-token hash than the hash of
  the raw token or has a reset expiry that is not after the clock, \<^verbatim>\<open>resetPassword\<close>
  fails with one and the same error, status 400 and message
  \<^verbatim>\<open>Token is invalid or expired.\<close>, and leaves the stores as they were.
\<close>

theorem resetPassword_invalid_or_expired:
  assumes "\<forall>u \<in> set (users w).
             passwordResetToken u \<noteq> Some (sha256_hex L resetToken)
             \<or> (case passwordResetExpiresIn u of None \<Rightarrow> True | Some e \<Rightarrow> e \<le> now)"
  shows "resetPassword L cfg req resetToken password_in passwordConfirmation_in salt now w =
           (Inl (AppError (ErrorHandler ''Token is invalid or expired.'' 400)), w)"
proof -
  have "findOne (resetFilter (sha256_hex L resetToken) now) (users w) = None"
    using assms by (intro findOne_None) (auto simp: resetFilter_def split: option.splits)
  then show ?thesis by (simp add: resetPassword_def)
qed

theorem resetPassword_invalid_or_expired_witness:
  "resetPassword lib0 dev_cfg plain_req ''zz'' (Some ''newpassword'') (Some ''newpassword'')
     ''salt'' 10000 w0 =
     (Inl (AppError (ErrorHandler ''Token is invalid or expired.'' 400)), w0) \<and>
   resetPassword lib0 dev_cfg plain_req ''r1'' (Some ''newpassword'') (Some ''newpassword'')
     ''salt'' 600000 w0 =
     (Inl (AppError (ErrorHandler ''Token is invalid or expired.'' 400)), w0)"
proof -
  have a: "\<forall>u \<in> set (users w0).
             passwordResetToken u \<noteq> Some (sha256_hex lib0 ''zz'')
             \<or> (case passwordResetExpiresIn u of None \<Rightarrow> True | Some e \<Rightarrow> e \<le> 10000)"
    by (simp add: w0_def alice_def bob_def carol_def dave_def lib0_def)
  have b: "\<forall>u \<in> set (users w0).
             passwordResetToken u \<noteq> Some (sha256_hex lib0 ''r1'')
             \<or> (case passwordResetExpiresIn u of None \<Rightarrow> True | Some e \<Rightarrow> e \<le> 600000)"
    by (simp add: w0_def alice_def bob_def carol_def dave_def lib0_def)
  show ?thesis
    using resetPassword_invalid_or_expired [OF a] resetPassword_invalid_or_expired [OF b]
    by simp
qed

subsection \<open>Rollback of a reset token\<close>

lemma forgotPassword_mail_failure_result:
  assumes "e \<noteq> []" and "findOne (\<lambda>x. email x = toLowerCase L e) (users w) = Some u"
  shows "forgotPassword L req (Some e) randomHex salt now False w =
           (Inl (AppError (ErrorHandler
              ''There's some problem with sending email. Please try again later.'' 500)),
            w\<lparr> users :=
                 map (\<lambda>x. if uid x = uid u
                          then u\<lparr> passwordResetToken := None, passwordResetExpiresIn := None,
                                  password := password x \<rparr>
                          else x) (users w) \<rparr>)"
proof -
  from findOne_SomeD [OF assms(2)] have pw: "password u = None" by auto
  have p: "persist False
             (u\<lparr> passwordResetToken := None, passwordResetExpiresIn := None \<rparr>)
             (persist False
               (u\<lparr> passwordResetToken := Some (sha256_hex L randomHex),
                   passwordResetExpiresIn := Some (now + 600000) \<rparr>) (users w))
           = map (\<lambda>x. if uid x = uid u
                          then u\<lparr> passwordResetToken := None, passwordResetExpiresIn := None,
                                  password := password x \<rparr>
                          else x) (users w)"
    by (simp add: persist_def)
  show ?thesis
    using assms pw p
    by (simp add: forgotPassword_def createPasswordResetToken_def save_unmodified Let_def)
qed

text \<open>
  Claim C3, as the code has it. \<^verbatim>\<open>forgotPassword\<close> finds the user, and the mail
  service fails after the token and its expiry were saved. Then the handler fails with
  the 500 error, no mail is recorded, and every stored document of that user has
  \<^verbatim>\<open>passwordResetToken\<close> and \<^verbatim>\<open>passwordResetExpiresIn\<close> unset, all else as before.
  With ids unique, the users are as before the call exactly when the user had no reset
  token and no expiry before it: a token pending from an earlier call is unset, not
  put back.
\<close>

theorem forgotPassword_mail_failure:
  assumes "e \<noteq> []" and "findOne (\<lambda>x. email x = toLowerCase L e) (users w) = Some u"
    and "forgotPassword L req (Some e) randomHex salt now False w = (r, w')"
  shows "r = Inl (AppError (ErrorHandler
               ''There's some problem with sending email. Please try again later.'' 500)) \<and>
         statusCode (ErrorHandler
               ''There's some problem with sending email. Please try again later.'' 500) = 500 \<and>
         list_all (\<lambda>x. if uid x = uid u
                        then passwordResetToken x = None \<and> passwordResetExpiresIn x = None
                        else True) (users w') \<and>
         users w' = map (\<lambda>x. if uid x = uid u
                          then u\<lparr> passwordResetToken := None, passwordResetExpiresIn := None,
                                  password := password x \<rparr>
                          else x) (users w) \<and>
         outbox w' = outbox w \<and>
         (distinct (map uid (users w)) \<longrightarrow>
            (users w' = users w) =
              (passwordResetToken u = None \<and> passwordResetExpiresIn u = None))"
proof -
  define g where "g = (\<lambda>x. if uid x = uid u
                 then u\<lparr> passwordResetToken := None, passwordResetExpiresIn := None,
                         password := password x \<rparr>
                 else x)"
  have res: "r = Inl (AppError (ErrorHandler
               ''There's some problem with sending email. Please try again later.'' 500))"
    and w': "w' = w\<lparr> users := map g (users w) \<rparr>"
    using forgotPassword_mail_failure_result [OF assms(1,2)] assms(3) by (simp_all add: g_def)
  have cleared: "list_all (\<lambda>x. if uid x = uid u
                        then passwordResetToken x = None \<and> passwordResetExpiresIn x = None
                        else True) (users w')"
    by (auto simp: w' list_all_iff g_def)
  have restore: "(users w' = users w) =
                 (passwordResetToken u = None \<and> passwordResetExpiresIn u = None)"
    if d: "distinct (map uid (users w))"
  proof -
    from findOne_SomeD [OF assms(2)] obtain s where s: "s \<in> set (users w)"
      and u: "u = s\<lparr> password := None \<rparr>" by blast
    have others: "g x = x" if "x \<in> set (users w)" "x \<noteq> s" for x
    proof -
      have "uid x \<noteq> uid s"
        using d that s by (auto simp: distinct_map dest: inj_onD)
      then show ?thesis by (simp add: u g_def)
    qed
    have "(map g (users w) = users w) = (\<forall>x \<in> set (users w). g x = x)"
      using map_eq_conv [of g "users w" "\<lambda>x. x"] by simp
    also have "\<dots> = (g s = s)"
      using s others by auto
    also have "\<dots> = (passwordResetToken s = None \<and> passwordResetExpiresIn s = None)"
      by (cases s) (auto simp: u g_def)
    finally show ?thesis by (simp add: w' u)
  qed
  show ?thesis using res w' cleared restore by (simp add: statusCode_ErrorHandler g_def)
qed

text \<open>Bob has no reset token pending: after the failed mail the users are as before.\<close>

theorem forgotPassword_mail_failure_witness:
  "findOne (\<lambda>x. email x = toLowerCase lib0 ''b@x'') (users w0) = Some (bob\<lparr> password := None \<rparr>) \<and>
   fst (forgotPassword lib0 plain_req (Some ''b@x'') ''r2'' ''salt'' 5000 False w0) =
     Inl (AppError (ErrorHandler
        ''There's some problem with sending email. Please try again later.'' 500)) \<and>
   users (snd (forgotPassword lib0 plain_req (Some ''b@x'') ''r2'' ''salt'' 5000 False w0)) =
     users w0 \<and>
   outbox (snd (forgotPassword lib0 plain_req (Some ''b@x'') ''r2'' ''salt'' 5000 False w0)) =
     outbox w0"
proof -
  have f: "findOne (\<lambda>x. email x = toLowerCase lib0 ''b@x'') (users w0)
             = Some (bob\<lparr> password := None \<rparr>)"
    by (simp add: findOne_def activeFilter_def w0_def alice_def bob_def lib0_def)
  have e: "''b@x'' \<noteq> []" by simp
  have d: "distinct (map uid (users w0))"
    by (simp add: w0_def alice_def bob_def carol_def dave_def)
  have n: "passwordResetToken (bob\<lparr> password := None \<rparr>) = None"
          "passwordResetExpiresIn (bob\<lparr> password := None \<rparr>) = None"
    by (simp_all add: bob_def)
  note th = forgotPassword_mail_failure
    [OF e f surjective_pairing, of plain_req "''r2''" "''salt''" 5000]
  note c1 = th [THEN conjunct1]
  note c5 = th [THEN conjunct2, THEN conjunct2, THEN conjunct2, THEN conjunct2, THEN conjunct1]
  note c6 = th [THEN conjunct2, THEN conjunct2, THEN conjunct2, THEN conjunct2, THEN conjunct2,
                THEN mp, OF d]
  have "users (snd (forgotPassword lib0 plain_req (Some ''b@x'') ''r2'' ''salt'' 5000 False w0))
          = users w0"
    using c6 n by simp
  with c1 c5 f show ?thesis by simp
qed

text \<open>
  Against claim C3 as stated: Alice has a reset token pending when she asks again and
  the mail fails; afterwards her token and expiry are unset, which is not the state
  before the call.
\<close>

theorem forgotPassword_pending_token_counterexample:
  "passwordResetToken alice = Some ''h:r1'' \<and>
   passwordResetExpiresIn alice = Some 600000 \<and>
   forgotPassword lib0 plain_req (Some ''a@x'') ''r2'' ''salt'' 5000 False w0 =
     (Inl (AppError (ErrorHandler
        ''There's some problem with sending email. Please try again later.'' 500)),
      w0\<lparr> users := [alice\<lparr> passwordResetToken := None, passwordResetExpiresIn := None \<rparr>,
                     bob, carol, dave] \<rparr>) \<and>
   alice\<lparr> passwordResetToken := None, passwordResetExpiresIn := None \<rparr> \<noteq> alice"
  by code_simp

subsection \<open>Signing up\<close>

lemma User_create_InrD:
  assumes "User_create L newId salt now b db = Inr (u, db')"
  shows "db' = db @ [u] \<and>
         role u = (case sb_role b of None \<Rightarrow> ''user'' | Some r \<Rightarrow> r) \<and>
         confirmed u = (case sb_confirmed b of None \<Rightarrow> False | Some c \<Rightarrow> c) \<and>
         (\<exists>p. sb_password b = Some p \<and> password u = Some (bcrypt_hash L p 12 salt))"
  using assms
  by (auto simp: User_create_def Let_def hashPasswordHook_def passwordChangedAtHook_def
      split: option.splits if_splits)





text \<open>A payload that passes the validators, with a fresh id and address, creates a user.\<close>

lemma signUp_valid_payload_creates:
  assumes "sb_name body = Some n" "n \<noteq> []"
    and "sb_email body = Some e" "e \<noteq> []" "isEmail L (toLowerCase L e)"
    and "sb_password body = Some p" "8 \<le> length p" "sb_passwordConfirmation body = Some p"
    and "NODE_ENV cfg = ''production'' \<or> sb_role body = None
         \<or> sb_role body = Some ''user'' \<or> sb_role body = Some ''admin''
         \<or> sb_role body = Some ''rep''"
    and "newId \<notin> set (map uid (users w))"
    and "toLowerCase L e \<notin> set (map email (users w))"
  shows "users (snd (signUp L cfg req body newId salt now mailOk w)) \<noteq> users w"
proof -
  have p: "p \<noteq> []" using assms(7) by auto
  show ?thesis
    using assms p
    by (auto simp: signUp_def filterBody_def User_create_def validPasswordPaths_def
        hashPasswordHook_def passwordChangedAtHook_def sendConfirmationMail_def Let_def)
qed




text \<open>
  Claim C8. A payload with plaintext password \<open>p\<close> creates a user. The password
  stored on that user is the bcrypt hash of \<open>p\<close> at cost 12 under the salt drawn.
  bcrypt's hash of \<open>p\<close> is not \<open>p\<close>, and bcrypt's comparison accepts \<open>p\<close> against
  its hash (both are facts of the library, taken as hypotheses): so the stored password
  is not the plaintext, and \<^verbatim>\<open>isPasswordCorrect\<close> accepts \<open>p\<close> against it.
\<close>

theorem signUp_stores_hash:
  assumes payload: "sb_password body = Some p"
    and call: "signUp L cfg req body newId salt now mailOk w = (r, w')"
    and created: "users w' \<noteq> users w"
    and bcrypt_differs: "bcrypt_hash L p 12 salt \<noteq> p"
    and bcrypt_accepts: "bcrypt_compare L p (bcrypt_hash L p 12 salt)"
  shows "users w' = users w @ [last (users w')] \<and>
         password (last (users w')) = Some (bcrypt_hash L p 12 salt) \<and>
         password (last (users w')) \<noteq> Some p \<and>
         isPasswordCorrect L p (bcrypt_hash L p 12 salt)"
proof -
  let ?fb = "if NODE_ENV cfg = ''production''
             then filterBody body [''name'', ''email'', ''photo'', ''password'', ''passwordConfirmation'']
             else filterBody body [''name'', ''email'', ''photo'', ''password'', ''passwordConfirmation'',
                    ''role'', ''confirmed'']"
  have pw: "sb_password ?fb = Some p"
    using payload by (simp add: filterBody_def)
  show ?thesis
  proof (cases "User_create L newId salt now ?fb (users w)")
    case (Inl f)
    with call created show ?thesis by (simp add: signUp_def)
  next
    case (Inr x)
    obtain u db where x: "x = (u, db)" by (cases x)
    from User_create_InrD [OF Inr [unfolded x]] pw
    have db: "db = users w @ [u]" and h: "password u = Some (bcrypt_hash L p 12 salt)"
      by auto
    have "users w' = users w @ [u]"
      using call Inr x db
      by (auto simp: signUp_def sendConfirmationMail_def Let_def split: if_splits)
    with h bcrypt_differs bcrypt_accepts show ?thesis by (simp add: isPasswordCorrect_def)
  qed
qed

theorem signUp_stores_hash_witness:
  "password (last (users (snd (signUp lib0 prod_cfg plain_req eve_body ''u5'' ''salt'' 7000 True w0))))
     = Some ''saltsecret123'' \<and>
   bcrypt_hash lib0 ''secret123'' 12 ''salt'' = ''saltsecret123'' \<and>
   isPasswordCorrect lib0 ''secret123'' ''saltsecret123''"
proof -
  have c: "users (snd (signUp lib0 prod_cfg plain_req eve_body ''u5'' ''salt'' 7000 True w0))
              \<noteq> users w0"
    by code_simp
  have pw: "sb_password eve_body = Some ''secret123''" by (simp add: eve_body_def)
  have h: "bcrypt_hash lib0 ''secret123'' 12 ''salt'' = ''saltsecret123''"
    by (simp add: lib0_def)
  have n: "bcrypt_hash lib0 ''secret123'' 12 ''salt'' \<noteq> ''secret123''"
    by (simp add: lib0_def)
  have a: "bcrypt_compare lib0 ''secret123'' (bcrypt_hash lib0 ''secret123'' 12 ''salt'')"
    by (simp add: lib0_def)
  note t = signUp_stores_hash [OF pw surjective_pairing c n a]
  from t [THEN conjunct2, THEN conjunct1] t [THEN conjunct2, THEN conjunct2, THEN conjunct2] h
  show ?thesis by (simp only: simp_thms)
qed

subsection \<open>Completed records\<close>

text \<open>
  Claim C2, as the code has it. For a Completed record that exists and an authenticated
  user, \<^verbatim>\<open>updateCompleted\<close> and \<^verbatim>\<open>deleteCompleted\<close> succeed (200 with the updated
  document, 204) when the user owns the record or has role \<^verbatim>\<open>admin\<close>; for every
  other user both fail with status 401 and leave the stores as they were.
\<close>

theorem mutate_completed_owner_or_admin:
  assumes "Completed_findById i (completeds w) = Some c"
  shows "(c_user c = uid req_user \<or> role req_user = ''admin'' \<longrightarrow>
            updateCompleted req_user i body w =
              (Inr \<lparr> res_status = 200, res_cookie = None,
                      res_json = CompletedDocument (apply_body body c) \<rparr>,
               w\<lparr> completeds := update_first (\<lambda>c. cid c = i) (apply_body body) (completeds w) \<rparr>)
            \<and> deleteCompleted req_user i w =
              (Inr \<lparr> res_status = 204, res_cookie = None, res_json = NullData \<rparr>,
               w\<lparr> completeds := delete_first (\<lambda>c. cid c = i) (completeds w) \<rparr>)) \<and>
         (c_user c \<noteq> uid req_user \<and> role req_user \<noteq> ''admin'' \<longrightarrow>
            updateCompleted req_user i body w =
              (Inl (AppError (ErrorHandler ''You don't have permission to do this action.'' 401)), w)
            \<and> deleteCompleted req_user i w =
              (Inl (AppError (ErrorHandler ''You don't have permission to do this action.'' 401)), w)) \<and>
         statusCode (ErrorHandler ''You don't have permission to do this action.'' 401) = 401"
  using assms by (auto simp: updateCompleted_def deleteCompleted_def statusCode_ErrorHandler)

theorem mutate_completed_owner_or_admin_witness:
  "Completed_findById ''c1'' (completeds w0) = Some rec1 \<and>
   c_user rec1 = uid bob \<and>
   fst (updateCompleted bob ''c1'' \<lparr> b_test = Some ''t1'', b_user = None \<rparr> w0) =
     Inr \<lparr> res_status = 200, res_cookie = None, res_json = CompletedDocument rec1 \<rparr> \<and>
   deleteCompleted bob ''c1'' w0 =
     (Inr \<lparr> res_status = 204, res_cookie = None, res_json = NullData \<rparr>,
      w0\<lparr> completeds := [] \<rparr>) \<and>
   role carol = ''admin'' \<and>
   deleteCompleted carol ''c1'' w0 =
     (Inr \<lparr> res_status = 204, res_cookie = None, res_json = NullData \<rparr>,
      w0\<lparr> completeds := [] \<rparr>) \<and>
   c_user rec1 \<noteq> uid alice \<and> role alice \<noteq> ''admin'' \<and>
   deleteCompleted alice ''c1'' w0 =
     (Inl (AppError (ErrorHandler ''You don't have permission to do this action.'' 401)), w0)"
proof -
  have f: "Completed_findById ''c1'' (completeds w0) = Some rec1"
    by (simp add: Completed_findById_def w0_def rec1_def)
  show ?thesis
    using mutate_completed_owner_or_admin [OF f, of bob "\<lparr> b_test = Some ''t1'', b_user = None \<rparr>"]
          mutate_completed_owner_or_admin [OF f, of carol "\<lparr> b_test = Some ''t1'', b_user = None \<rparr>"]
          mutate_completed_owner_or_admin [OF f, of alice "\<lparr> b_test = Some ''t1'', b_user = None \<rparr>"]
          f
    by (simp add: rec1_def bob_def carol_def alice_def w0_def apply_body_def)
qed

text \<open>
  Against claim C2 as stated: Alice neither owns the record nor is an admin; both
  handlers refuse her with status 401, not 403.
\<close>

theorem mutate_completed_status_counterexample:
  "Completed_findById ''c1'' (completeds w0) = Some rec1 \<and>
   c_user rec1 \<noteq> uid alice \<and> role alice \<noteq> ''admin'' \<and>
   updateCompleted alice ''c1'' \<lparr> b_test = None, b_user = None \<rparr> w0 =
     (Inl (AppError (ErrorHandler ''You don't have permission to do this action.'' 401)), w0) \<and>
   deleteCompleted alice ''c1'' w0 =
     (Inl (AppError (ErrorHandler ''You don't have permission to do this action.'' 401)), w0) \<and>
   statusCode (ErrorHandler ''You don't have permission to do this action.'' 401) \<noteq> 403"
  by (simp add: Completed_findById_def updateCompleted_def deleteCompleted_def w0_def rec1_def
        alice_def statusCode_ErrorHandler)

text \<open>
  What \<^verbatim>\<open>addNewCompleted\<close> checks once the user of the route and the test exist: the
  membership of the user of the route, and the role of the acting user.
\<close>

lemma addNewCompleted_check:
  assumes "findById (Some k) (users w) = Some u" and "t \<in> set (tests w)"
  shows "addNewCompleted L req_user (Some k) \<lparr> b_test = Some t, b_user = bu \<rparr> newId now w =
           (if \<not> isMemberOfSameTeam L t k \<and> role req_user \<noteq> ''admin''
            then (Inl (AppError (ErrorHandler
                    ''You don't belong in this team to mark this test as applied.'' 401)), w)
            else case Completed_create newId now \<lparr> b_test = Some t, b_user = bu \<rparr> (completeds w) of
                   Inl f \<Rightarrow> (Inl f, w)
                 | Inr (doc, cs) \<Rightarrow>
                     (Inr \<lparr> res_status = 201, res_cookie = None,
                            res_json = CompletedDocument doc \<rparr>,
                      w\<lparr> completeds := cs \<rparr>))"
proof -
  have "find (\<lambda>x. x = t) (tests w) = Some t"
    using assms(2) by (rule find_eq_member)
  then show ?thesis using assms(1) by (simp add: addNewCompleted_def Test_findById_def)
qed

text \<open>
  Claim C5 at a failing input. Alice, of role \<^verbatim>\<open>user\<close> and not a member of the team
  of test \<open>t1\<close>, posts to the route of Bob, who is a member: the handler answers 201
  and the record is stored, where the claim asks for an authorization error and no
  record.
\<close>

theorem addNewCompleted_by_non_member:
  "role alice \<noteq> ''admin'' \<and>
   isMemberOfSameTeam lib0 ''t1'' (uid alice) = False \<and>
   addNewCompleted lib0 alice (Some ''u2'') \<lparr> b_test = Some ''t1'', b_user = Some ''u2'' \<rparr>
       ''c9'' 5000 w0 =
     (Inr \<lparr> res_status = 201, res_cookie = None,
             res_json = CompletedDocument
               \<lparr> cid = ''c9'', c_test = ''t1'', c_user = ''u2'', completedAt = 5000 \<rparr> \<rparr>,
      w0\<lparr> completeds :=
            [rec1, \<lparr> cid = ''c9'', c_test = ''t1'', c_user = ''u2'', completedAt = 5000 \<rparr>] \<rparr>)"
  by (simp add: addNewCompleted_def findById_def findOne_def activeFilter_def Test_findById_def
        Completed_create_def Let_def w0_def alice_def bob_def carol_def dave_def rec1_def lib0_def)

end
